theory Spec2Isabelle
  imports Complex_Main
begin

section \<open>Floating-point values of Python and NumPy\<close>

text \<open>
  The notebook computes with IEEE-754 doubles (Python \<open>float\<close>, NumPy \<open>float64\<close>).
  A double is modelled as a finite real or one of the three special values. The
  special-value rules of IEEE-754 are written out; a finite result is the exact real
  result, so rounding, overflow and the sign of zero are not represented (a zero divisor
  is read as \<open>+0.0\<close>).
\<close>

datatype float64 = Fin real | PInf | NInf | NaN

text \<open>The floating-point error kinds NumPy reports and \<open>np.errstate\<close> configures.\<close>

datatype fperr = Divide | Invalid

text \<open>The exceptions the notebook's cells can raise.\<close>

datatype error = KeyError string | TypeError | ValueError

text \<open>
  A value a cell of the table or a function argument can hold: a number, or a string
  (the \<open>Sex\<close> column; a missing entry of any column is the number NaN).
\<close>

datatype pyval = Num float64 | Str string

definition inf_of_sign :: "real \<Rightarrow> float64" where
  "inf_of_sign s = (if 0 < s then PInf else if s < 0 then NInf else NaN)"

fun fsub :: "float64 \<Rightarrow> float64 \<Rightarrow> float64" where
  "fsub NaN _ = NaN"
| "fsub _ NaN = NaN"
| "fsub (Fin a) (Fin b) = Fin (a - b)"
| "fsub (Fin _) PInf = NInf"
| "fsub (Fin _) NInf = PInf"
| "fsub PInf PInf = NaN"
| "fsub PInf _ = PInf"
| "fsub NInf NInf = NaN"
| "fsub NInf _ = NInf"

fun fmul :: "float64 \<Rightarrow> float64 \<Rightarrow> float64" where
  "fmul NaN _ = NaN"
| "fmul _ NaN = NaN"
| "fmul (Fin a) (Fin b) = Fin (a * b)"
| "fmul (Fin a) PInf = inf_of_sign a"
| "fmul (Fin a) NInf = inf_of_sign (- a)"
| "fmul PInf (Fin b) = inf_of_sign b"
| "fmul NInf (Fin b) = inf_of_sign (- b)"
| "fmul PInf PInf = PInf"
| "fmul PInf NInf = NInf"
| "fmul NInf PInf = NInf"
| "fmul NInf NInf = PInf"

fun fdiv :: "float64 \<Rightarrow> float64 \<Rightarrow> float64" where
  "fdiv NaN _ = NaN"
| "fdiv _ NaN = NaN"
| "fdiv (Fin a) (Fin b) = (if b = 0 then inf_of_sign a else Fin (a / b))"
| "fdiv (Fin _) _ = Fin 0"
| "fdiv PInf (Fin b) = (if b < 0 then NInf else PInf)"
| "fdiv NInf (Fin b) = (if b < 0 then PInf else NInf)"
| "fdiv _ _ = NaN"

fun flog :: "float64 \<Rightarrow> float64" where
  "flog (Fin x) = (if 0 < x then Fin (ln x) else if x = 0 then NInf else NaN)"
| "flog PInf = PInf"
| "flog NInf = NaN"
| "flog NaN = NaN"

fun fle :: "float64 \<Rightarrow> float64 \<Rightarrow> bool" where
  "fle NaN _ = False"
| "fle _ NaN = False"
| "fle (Fin a) (Fin b) = (a \<le> b)"
| "fle NInf _ = True"
| "fle _ PInf = True"
| "fle _ _ = False"

fun isinf :: "float64 \<Rightarrow> bool" where
  "isinf PInf = True"
| "isinf NInf = True"
| "isinf _ = False"

fun isnan :: "float64 \<Rightarrow> bool" where
  "isnan NaN = True"
| "isnan _ = False"

subsection \<open>NumPy operations with their floating-point errors\<close>

text \<open>
  A NumPy operation yields its value together with the floating-point errors it
  signals: \<open>Divide\<close> for a finite non-zero value divided by zero and for \<open>log 0\<close>,
  \<open>Invalid\<close> for an operation without a defined result (\<open>inf - inf\<close>, \<open>0 * inf\<close>,
  \<open>0 / 0\<close>, \<open>inf / inf\<close>, the logarithm of a negative number). A comparison with a NaN
  is given the \<open>Invalid\<close> error as well, which NumPy versions differ on; the model takes
  the version that signals more.
\<close>

type_synonym 'a np = "fperr list \<times> 'a"

definition np_return :: "'a \<Rightarrow> 'a np" where
  "np_return x = ([], x)"

definition np_bind :: "'a np \<Rightarrow> ('a \<Rightarrow> 'b np) \<Rightarrow> 'b np" where
  "np_bind m f = (case m of (w, x) \<Rightarrow> (case f x of (w', y) \<Rightarrow> (w @ w', y)))"

definition np_subtract :: "float64 \<Rightarrow> float64 \<Rightarrow> float64 np" where
  "np_subtract a b =
     (if (a = PInf \<and> b = PInf) \<or> (a = NInf \<and> b = NInf) then [Invalid] else [], fsub a b)"

definition np_multiply :: "float64 \<Rightarrow> float64 \<Rightarrow> float64 np" where
  "np_multiply a b =
     (if (a = Fin 0 \<and> isinf b) \<or> (isinf a \<and> b = Fin 0) then [Invalid] else [], fmul a b)"

definition np_true_divide :: "float64 \<Rightarrow> float64 \<Rightarrow> float64 np" where
  "np_true_divide a b =
     (if (a = Fin 0 \<and> b = Fin 0) \<or> (isinf a \<and> isinf b) then [Invalid]
      else if b = Fin 0 \<and> \<not> isinf a \<and> \<not> isnan a then [Divide]
      else [], fdiv a b)"

definition np_log :: "float64 \<Rightarrow> float64 np" where
  "np_log a =
     (case a of
        Fin x \<Rightarrow> if x = 0 then [Divide] else if x < 0 then [Invalid] else []
      | NInf \<Rightarrow> [Invalid]
      | _ \<Rightarrow> [],
      flog a)"

definition np_less_equal :: "float64 \<Rightarrow> float64 \<Rightarrow> bool np" where
  "np_less_equal a b = (if isnan a \<or> isnan b then [Invalid] else [], fle a b)"

text \<open>
  \<open>with np.errstate(divide='ignore', invalid='ignore')\<close>: inside the block the
  listed error kinds are dropped; every other kind keeps NumPy's default handling and
  surfaces as a \<open>RuntimeWarning\<close>. The first component of the result is the list of
  warnings that surface.
\<close>

definition errstate :: "fperr list \<Rightarrow> 'a np \<Rightarrow> 'a np" where
  "errstate ignored m = (filter (\<lambda>e. e \<notin> set ignored) (fst m), snd m)"

section \<open>The Von Bertalanffy age functions\<close>

text \<open>
  \<open>calculate_male_age(Lt, L8=264.2, b=50, k=0.16)\<close> and
  \<open>calculate_female_age(Lt, L8=323.9, b=50, k=0.11)\<close>. No call in the notebook
  passes \<open>L8\<close>, \<open>b\<close> or \<open>k\<close>, so the functions are modelled at their default
  parameters; \<open>1/b\<close> is then the Python division \<open>1/50\<close>, which does not raise.
  A string argument makes \<open>Lt / L8\<close> raise \<open>TypeError\<close>. The result is the pair of
  the warnings that surface and the value returned. The three operations before
  \<open>np.log\<close> are Python operations when \<open>Lt\<close> is a Python number and NumPy
  operations when it is a \<open>float64\<close>; with the constants \<open>264.2\<close>, \<open>1\<close> and
  \<open>1/50\<close> neither signals an error, and the values agree.
\<close>

fun calculate_male_age :: "pyval \<Rightarrow> error + float64 np" where
  "calculate_male_age (Str _) = Inl TypeError"
| "calculate_male_age (Num Lt) = Inr (
     errstate [Divide, Invalid]
      (np_bind (np_true_divide Lt (Fin 264.2)) (\<lambda>q.
       np_bind (np_subtract (Fin 1) q) (\<lambda>d.
       np_bind (np_multiply (Fin (1 / 50)) d) (\<lambda>p.
       np_bind (np_log p) (\<lambda>l.
       np_bind (np_true_divide l (Fin (- 0.16))) (\<lambda>Age.
       np_bind (np_less_equal Age (Fin 0)) (\<lambda>nonpos.
         if nonpos \<or> isinf Age \<or> isnan Age then np_return NaN
         else np_return Age))))))))"

fun calculate_female_age :: "pyval \<Rightarrow> error + float64 np" where
  "calculate_female_age (Str _) = Inl TypeError"
| "calculate_female_age (Num Lt) = Inr (
     errstate [Divide, Invalid]
      (np_bind (np_true_divide Lt (Fin 323.9)) (\<lambda>q.
       np_bind (np_subtract (Fin 1) q) (\<lambda>d.
       np_bind (np_multiply (Fin (1 / 50)) d) (\<lambda>p.
       np_bind (np_log p) (\<lambda>l.
       np_bind (np_true_divide l (Fin (- 0.11))) (\<lambda>Age.
       np_bind (np_less_equal Age (Fin 0)) (\<lambda>nonpos.
         if nonpos \<or> isinf Age \<or> isnan Age then np_return NaN
         else np_return Age))))))))"

text \<open>
  \<open>calculate_age(row)\<close>: the dispatch on \<open>row['Sex']\<close>. A row is a map from
  column labels to values; reading a label the row does not have raises
  \<open>KeyError\<close>. The comparison of a number (a missing \<open>Sex\<close>) with \<open>'Male'\<close> is
  false.
\<close>

type_synonym row = "string \<rightharpoonup> pyval"

definition getitem :: "row \<Rightarrow> string \<Rightarrow> error + pyval" where
  "getitem r c = (case r c of None \<Rightarrow> Inl (KeyError c) | Some v \<Rightarrow> Inr v)"

definition calculate_age :: "row \<Rightarrow> error + float64 np" where
  "calculate_age r =
     (case getitem r ''Sex'' of
        Inl e \<Rightarrow> Inl e
      | Inr s \<Rightarrow>
          if s = Str ''Male'' then
            (case getitem r ''FL (cm)'' of Inl e \<Rightarrow> Inl e | Inr Lt \<Rightarrow> calculate_male_age Lt)
          else if s = Str ''Female'' then
            (case getitem r ''FL (cm)'' of Inl e \<Rightarrow> Inl e | Inr Lt \<Rightarrow> calculate_female_age Lt)
          else Inr (np_return NaN))"

section \<open>The age correction\<close>

text \<open>
  \<open>correction_coefficient(m)\<close>, applied by \<open>Series.apply\<close> to Python floats:
  \<open>m * 0.5910115884370238 - 16.971951358327846\<close>. Python float arithmetic neither
  warns nor raises on these operands; a string operand raises \<open>TypeError\<close>.
\<close>

fun correction_coefficient :: "pyval \<Rightarrow> error + float64" where
  "correction_coefficient (Str _) = Inl TypeError"
| "correction_coefficient (Num m) =
     Inr (fsub (fmul m (Fin 0.5910115884370238)) (Fin 16.971951358327846))"

text \<open>
  The closed form of the specification, \<open>Age = ln((1/b) (1 - FL/L\<infinity>)) / (-k)\<close>, as a
  function on the reals.
\<close>

definition vb_closed_form :: "real \<Rightarrow> real \<Rightarrow> real \<Rightarrow> real \<Rightarrow> real" where
  "vb_closed_form Linf b k FL = ln ((1 / b) * (1 - FL / Linf)) / (- k)"

section \<open>The specimen table\<close>

text \<open>
  The \<open>DataFrame\<close> \<open>Adult_specimens\<close>: its column labels in order and its rows,
  each row a map from the labels to values.
\<close>

record dataframe =
  columns :: "string list"
  rows :: "row list"

text \<open>\<open>df[c] = values\<close>: a new column is appended, an existing one overwritten.\<close>

definition setitem :: "dataframe \<Rightarrow> string \<Rightarrow> pyval list \<Rightarrow> dataframe" where
  "setitem df c vs =
     df\<lparr>columns := (if c \<in> set (columns df) then columns df else columns df @ [c]),
        rows := map (\<lambda>(r, v). r(c \<mapsto> v)) (zip (rows df) vs)\<rparr>"

text \<open>
  \<open>apply\<close>: the function is called on each element in order; the first exception
  ends the call.
\<close>

fun apply_each :: "('a \<Rightarrow> error + 'b) \<Rightarrow> 'a list \<Rightarrow> error + 'b list" where
  "apply_each f [] = Inr []"
| "apply_each f (x # xs) =
     (case f x of
        Inl e \<Rightarrow> Inl e
      | Inr v \<Rightarrow> (case apply_each f xs of Inl e \<Rightarrow> Inl e | Inr vs \<Rightarrow> Inr (v # vs)))"

text \<open>
  The cell \<open>Impute Missing Fork Length Values\<close>:
  \<^verbatim>\<open>
  if 'FL (mm)' not in Adult_specimens.columns:
      Adult_specimens['FL (mm)'] = (Adult_specimens['TL (mm)'] - 3.472)/ 1.2533
  \<close>
  The column arithmetic is elementwise; on a string it raises \<open>TypeError\<close>.
\<close>

definition fork_length_of_total :: "pyval \<Rightarrow> error + pyval" where
  "fork_length_of_total v =
     (case v of
        Str _ \<Rightarrow> Inl TypeError
      | Num TL \<Rightarrow> Inr (Num (fdiv (fsub TL (Fin 3.472)) (Fin 1.2533))))"

definition impute_fork_length :: "dataframe \<Rightarrow> error + dataframe" where
  "impute_fork_length df =
     (if ''FL (mm)'' \<notin> set (columns df) then
        (if ''TL (mm)'' \<notin> set (columns df) then Inl (KeyError ''TL (mm)'')
         else
           (case apply_each
                   (\<lambda>r. case getitem r ''TL (mm)'' of
                          Inl e \<Rightarrow> Inl e
                        | Inr v \<Rightarrow> fork_length_of_total v)
                   (rows df) of
              Inl e \<Rightarrow> Inl e
            | Inr fl \<Rightarrow> Inr (setitem df ''FL (mm)'' fl)))
      else Inr df)"

text \<open>Every row holds a number (possibly NaN) under the label \<open>c\<close>.\<close>

definition numeric_column :: "dataframe \<Rightarrow> string \<Rightarrow> bool" where
  "numeric_column df c =
     list_all (\<lambda>r. case r c of Some (Num _) \<Rightarrow> True | _ \<Rightarrow> False) (rows df)"

section \<open>The regression of vertebral age on VB age\<close>

text \<open>
  \<open>LinearRegression().fit(X, y)\<close> of scikit-learn with one feature, a library the
  notebook calls. The input is validated (no sample, a NaN or an infinity raise
  \<open>ValueError\<close>), both columns are centred, and the centred system is solved by
  \<open>scipy.linalg.lstsq\<close>, which returns the least-squares solution and, when the
  centred feature column is zero, the solution of least norm, \<open>0\<close>. The result is
  \<open>(coef_[0][0], intercept_[0])\<close>.
\<close>

fun finite_value :: "float64 \<Rightarrow> real option" where
  "finite_value (Fin x) = Some x"
| "finite_value _ = None"

fun finite_values :: "float64 list \<Rightarrow> real list option" where
  "finite_values [] = Some []"
| "finite_values (v # vs) =
     (case finite_value v of
        None \<Rightarrow> None
      | Some x \<Rightarrow> (case finite_values vs of None \<Rightarrow> None | Some xs \<Rightarrow> Some (x # xs)))"

definition mean :: "real list \<Rightarrow> real" where
  "mean xs = sum_list xs / real (length xs)"

definition LinearRegression_fit :: "float64 list \<Rightarrow> float64 list \<Rightarrow> error + real \<times> real" where
  "LinearRegression_fit X y =
     (case (finite_values X, finite_values y) of
        (Some xs, Some ys) \<Rightarrow>
          if xs = [] \<or> length xs \<noteq> length ys then Inl ValueError
          else
            let xc = map (\<lambda>x. x - mean xs) xs;
                yc = map (\<lambda>y. y - mean ys) ys;
                sxx = sum_list (map (\<lambda>x. x * x) xc);
                sxy = sum_list (map (\<lambda>(x, y). x * y) (zip xc yc));
                coef = (if sxx = 0 then 0 else sxy / sxx)
            in Inr (coef, mean ys - mean xs * coef)
      | _ \<Rightarrow> Inl ValueError)"

text \<open>
  The regression cell, as a function of the array of (vertebral age, VB age) rows:
  \<open>model.fit(Vb_age_array, Vertebral_age_array)\<close> regresses column \<open>'Vertebral Age'\<close>
  on column \<open>'VB Age'\<close>; \<open>slope\<close> and \<open>intercept\<close> are read from the model.
  \<open>y_pred\<close> is not used again and is left out.
\<close>

definition Vertebral_vb_array :: "(float64 \<times> float64) list" where
  "Vertebral_vb_array = [(Fin 16.5, Fin 56.635017), (Fin 11.5, Fin 48.174946)]"

definition fit_regression :: "(float64 \<times> float64) list \<Rightarrow> error + real \<times> real" where
  "fit_regression arr = LinearRegression_fit (map snd arr) (map fst arr)"

text \<open>
  \<open>Vertebral_vb_estimation = [calculate_female_age(Lt) for Lt in Vertebral_aged_FL]\<close>
\<close>

definition Vertebral_aged_FL :: "pyval list" where
  "Vertebral_aged_FL = [Num (Fin 292), Num (Fin 243)]"

definition Vertebral_vb_estimation :: "error + float64 np list" where
  "Vertebral_vb_estimation = apply_each calculate_female_age Vertebral_aged_FL"

section \<open>The notebook\<close>

text \<open>
  The cells in their order, on the table read from the CSV file: the imputation,
  \<open>Adult_specimens.apply(calculate_age, axis=1)\<close> into column \<open>'Modified VB Age'\<close>,
  the two calibration cells (whose results the later cells do not read: the correction
  uses literal constants), and \<open>Series.apply(correction_coefficient)\<close> into column
  \<open>'Age Corrected Proxy'\<close>. The result is the first exception raised, or the warnings
  surfaced and the final table. Printing, \<open>describe\<close> and the file operations are
  left out.
\<close>

definition run_notebook :: "dataframe \<Rightarrow> error + dataframe np" where
  "run_notebook df =
     (case impute_fork_length df of
        Inl e \<Rightarrow> Inl e
      | Inr df1 \<Rightarrow>
     (case apply_each calculate_age (rows df1) of
        Inl e \<Rightarrow> Inl e
      | Inr ages \<Rightarrow>
     (let df2 = setitem df1 ''Modified VB Age'' (map (\<lambda>a. Num (snd a)) ages) in
     (case Vertebral_vb_estimation of
        Inl e \<Rightarrow> Inl e
      | Inr est \<Rightarrow>
     (case fit_regression Vertebral_vb_array of
        Inl e \<Rightarrow> Inl e
      | Inr slope_intercept \<Rightarrow>
     (case apply_each correction_coefficient (map (\<lambda>a. Num (snd a)) ages) of
        Inl e \<Rightarrow> Inl e
      | Inr corrected \<Rightarrow>
          Inr (concat (map fst ages) @ concat (map fst est),
               setitem df2 ''Age Corrected Proxy'' (map Num corrected))))))))"

section \<open>Evaluating the age functions\<close>

text \<open>
  On a finite length both functions surface no warning and return the closed form when
  the length is below the asymptotic length and the closed form is positive, and NaN
  otherwise. On an infinite or missing length they return NaN.
\<close>

lemmas np_defs = np_return_def np_bind_def errstate_def np_true_divide_def np_subtract_def
      np_multiply_def np_log_def np_less_equal_def inf_of_sign_def


lemma female_fin:
  "calculate_female_age (Num (Fin FL)) =
     Inr ([], if FL < 323.9 \<and> 0 < vb_closed_form 323.9 50 0.11 FL
              then Fin (vb_closed_form 323.9 50 0.11 FL) else NaN)"
  by (simp add: np_defs vb_closed_form_def)





lemma closed_form_pos:
  assumes "0 < Linf" "0 < k" "- 49 * Linf < FL" "FL < Linf"
  shows "0 < vb_closed_form Linf 50 k FL"
proof -
  have q: "FL / Linf < 1" "- 49 < FL / Linf"
    using assms by (simp_all add: field_simps)
  then have "0 < (1 / 50) * (1 - FL / Linf)" "(1 / 50) * (1 - FL / Linf) < 1"
    by simp_all
  then have "ln ((1 / 50) * (1 - FL / Linf)) < 0"
    by (simp only: ln_less_zero_iff)
  then show ?thesis
    using \<open>0 < k\<close> by (simp add: vb_closed_form_def field_simps)
qed

section \<open>Enclosures of the exponential and the logarithm\<close>

text \<open>
  The exponential is enclosed by its Taylor polynomial of degree 9 and the Lagrange
  remainder on \<open>[0, 1]\<close>, and \<open>exp (2 x) = (exp x)\<^sup>2\<close> carries an enclosure from
  \<open>x\<close> to \<open>2 x\<close>. Four doublings reach the arguments needed to enclose the
  logarithms that occur in the concrete ages below.
\<close>

lemma exp_taylor_lower:
  fixes x :: real
  assumes "0 \<le> x"
  shows "(\<Sum>m<n. x ^ m / fact m) \<le> exp x"
proof -
  obtain t where "exp x = (\<Sum>m<n. x ^ m / fact m) + (exp t / fact n) * x ^ n"
    using Maclaurin_exp_le [of x n] by blast
  moreover have "0 \<le> (exp t / fact n) * x ^ n"
    using assms by simp
  ultimately show ?thesis
    by linarith
qed

lemma exp_taylor_upper:
  fixes x :: real
  assumes "0 \<le> x" "x \<le> 1"
  shows "exp x \<le> (\<Sum>m<n. x ^ m / fact m) + 3 * x ^ n / fact n"
proof -
  obtain t where t: "\<bar>t\<bar> \<le> \<bar>x\<bar>"
      "exp x = (\<Sum>m<n. x ^ m / fact m) + (exp t / fact n) * x ^ n"
    using Maclaurin_exp_le [of x n] by blast
  have "t \<le> 1"
    using t(1) assms by linarith
  then have "exp t \<le> exp 1"
    by simp
  also have "\<dots> \<le> 3"
    by (rule exp_le)
  finally have "exp t * (x ^ n / fact n) \<le> 3 * (x ^ n / fact n)"
    using assms by (intro mult_right_mono) simp_all
  then show ?thesis
    using t(2) by (simp add: field_simps)
qed

lemma exp_square_upper:
  fixes x :: real
  assumes "exp x \<le> u" "u\<^sup>2 \<le> v"
  shows "exp (2 * x) \<le> v"
proof -
  have "exp (2 * x) = (exp x)\<^sup>2"
    by (rule exp_double)
  also have "\<dots> \<le> u\<^sup>2"
    using assms(1) by (intro power_mono) simp_all
  finally show ?thesis
    using assms(2) by linarith
qed

lemma exp_square_lower:
  fixes x :: real
  assumes "l \<le> exp x" "0 \<le> l" "v \<le> l\<^sup>2"
  shows "v \<le> exp (2 * x)"
proof -
  have "l\<^sup>2 \<le> (exp x)\<^sup>2"
    using assms(1,2) by (intro power_mono) simp_all
  also have "\<dots> = exp (2 * x)"
    by (rule exp_double [symmetric])
  finally show ?thesis
    using assms(3) by linarith
qed

lemma taylor10:
  fixes x :: real
  shows "(\<Sum>m<10. x ^ m / fact m) =
    1 + x + x^2 / 2 + x^3 / 6 + x^4 / 24 + x^5 / 120 + x^6 / 720 + x^7 / 5040
      + x^8 / 40320 + x^9 / 362880"
  by (simp add: lessThan_nat_numeral sum.lessThan_Suc fact_numeral numeral_eq_Suc)

lemma scaled_ln_between:
  fixes c :: real
  assumes "0 < c" "0 < k" "exp (k * a) < c" "c < exp (k * b)"
  shows "a < ln c / k \<and> ln c / k < b"
proof -
  have "exp (k * a) < exp (ln c)" "exp (ln c) < exp (k * b)"
    using assms by simp_all
  then have "k * a < ln c" "ln c < k * b"
    by (simp_all only: exp_less_cancel_iff)
  then show ?thesis
    using \<open>0 < k\<close> by (simp add: pos_less_divide_eq pos_divide_less_eq mult.commute)
qed

lemma closed_form_as_ln:
  assumes "0 < Linf" "FL < Linf"
  shows "vb_closed_form Linf 50 k FL = ln (50 * Linf / (Linf - FL)) / k"
proof -
  have "(1 / 50) * (1 - FL / Linf) = inverse (50 * Linf / (Linf - FL))"
    using assms by (simp add: field_simps)
  then have "ln ((1 / 50) * (1 - FL / Linf)) = - ln (50 * Linf / (Linf - FL))"
    by (simp only: ln_inverse)
  then show ?thesis
    by (simp add: vb_closed_form_def)
qed

lemma abs_diff_less:
  fixes x :: real
  assumes "v - e < x \<and> x < v + e"
  shows "\<bar>x - v\<bar> < e"
  using assms by linarith

section \<open>Properties of the VB Age Estimator\<close>










section \<open>Properties of the Age Corrector\<close>

text \<open>
  C6. The corrected age of a missing VB age is missing, and a row whose \<open>Sex\<close> is
  neither \<open>'Male'\<close> nor \<open>'Female'\<close> (a missing \<open>Sex\<close> included) gets a missing VB
  age; neither call raises.
\<close>

theorem missing_age_propagates:
  "correction_coefficient (Num NaN) = Inr NaN
   \<and> (r ''Sex'' = Some s \<and> s \<noteq> Str ''Male'' \<and> s \<noteq> Str ''Female'' \<longrightarrow>
        calculate_age r = Inr ([], NaN))"
  by (simp add: calculate_age_def getitem_def np_return_def)

theorem missing_age_propagates_witness:
  "calculate_age [''Sex'' \<mapsto> Num NaN, ''FL (cm)'' \<mapsto> Num (Fin 200)] = Inr ([], NaN)
   \<and> calculate_age [''Sex'' \<mapsto> Str ''Unknown''] = Inr ([], NaN)
   \<and> correction_coefficient (Num NaN) = Inr NaN"
  using missing_age_propagates [of "[''Sex'' \<mapsto> Num NaN, ''FL (cm)'' \<mapsto> Num (Fin 200)]" "Num NaN"]
    missing_age_propagates [of "[''Sex'' \<mapsto> Str ''Unknown'']" "Str ''Unknown''"]
  by simp



section \<open>Properties of the Length Normalizer\<close>

lemma apply_each_map:
  "(\<And>x. x \<in> set xs \<Longrightarrow> f x = Inr (g x)) \<Longrightarrow> apply_each f xs = Inr (map g xs)"
  by (induction xs) simp_all

lemma impute_present:
  "''FL (mm)'' \<in> set (columns df) \<Longrightarrow> impute_fork_length df = Inr df"
  by (simp add: impute_fork_length_def)

lemma impute_absent:
  assumes "''FL (mm)'' \<notin> set (columns df)" "''TL (mm)'' \<in> set (columns df)"
    and num: "\<And>r. r \<in> set (rows df) \<Longrightarrow> r ''TL (mm)'' = Some (Num (TLs r))"
  shows "impute_fork_length df =
           Inr (setitem df ''FL (mm)''
                  (map (\<lambda>r. Num (fdiv (fsub (TLs r) (Fin 3.472)) (Fin 1.2533))) (rows df)))"
proof -
  have "apply_each (\<lambda>r. case getitem r ''TL (mm)'' of Inl e \<Rightarrow> Inl e
                          | Inr v \<Rightarrow> fork_length_of_total v) (rows df)
        = Inr (map (\<lambda>r. Num (fdiv (fsub (TLs r) (Fin 3.472)) (Fin 1.2533))) (rows df))"
    by (rule apply_each_map) (simp add: num getitem_def fork_length_of_total_def)
  then show ?thesis
    using assms(1,2) by (simp add: impute_fork_length_def)
qed

lemma setitem_row:
  "length vs = length (rows df) \<Longrightarrow> i < length (rows df) \<Longrightarrow>
   (rows (setitem df c vs) ! i) c = Some (vs ! i)"
  by (simp add: setitem_def)

lemma numeric_columnD:
  "numeric_column df c \<Longrightarrow> r \<in> set (rows df) \<Longrightarrow> \<exists>x. r c = Some (Num x)"
proof -
  assume "numeric_column df c" "r \<in> set (rows df)"
  then have "case r c of Some (Num _) \<Rightarrow> True | _ \<Rightarrow> False"
    by (simp add: numeric_column_def list_all_iff)
  then show ?thesis
    by (auto split: option.split_asm pyval.split_asm)
qed

lemma impute_absent':
  assumes "''FL (mm)'' \<notin> set (columns df)" "''TL (mm)'' \<in> set (columns df)"
    and "numeric_column df ''TL (mm)''"
  shows "\<exists>vs. impute_fork_length df = Inr (setitem df ''FL (mm)'' vs)
           \<and> length vs = length (rows df)
           \<and> (\<forall>i<length (rows df). \<forall>t. (rows df ! i) ''TL (mm)'' = Some (Num t) \<longrightarrow>
                 vs ! i = Num (fdiv (fsub t (Fin 3.472)) (Fin 1.2533)))"
proof -
  define TLs where "TLs r = (case r ''TL (mm)'' of Some (Num x) \<Rightarrow> x | _ \<Rightarrow> NaN)" for r :: row
  have num: "r ''TL (mm)'' = Some (Num (TLs r))" if "r \<in> set (rows df)" for r
    using numeric_columnD [OF assms(3) that] by (auto simp: TLs_def)
  let ?vs = "map (\<lambda>r. Num (fdiv (fsub (TLs r) (Fin 3.472)) (Fin 1.2533))) (rows df)"
  have "impute_fork_length df = Inr (setitem df ''FL (mm)'' ?vs)"
    using assms(1,2) num by (rule impute_absent)
  moreover have "length ?vs = length (rows df)"
    by simp
  moreover have "\<forall>i<length (rows df). \<forall>t. (rows df ! i) ''TL (mm)'' = Some (Num t) \<longrightarrow>
                 ?vs ! i = Num (fdiv (fsub t (Fin 3.472)) (Fin 1.2533))"
    using num by (auto simp: TLs_def)
  ultimately show ?thesis
    by blast
qed

text \<open>
  C3, as amended. The imputation is decided for the table, not for the row. When the
  table has a column \<open>'FL (mm)'\<close> it is returned unchanged, so every fork length,
  present or missing, stays as it is. When the table has no column \<open>'FL (mm)'\<close> and a
  numeric column \<open>'TL (mm)'\<close>, every row with total length \<open>t\<close> gets the fork length
  \<open>(t - 3.472) / 1.2533\<close>.
\<close>

theorem impute_by_column:
  "(''FL (mm)'' \<in> set (columns df) \<longrightarrow> impute_fork_length df = Inr df)
   \<and> (''FL (mm)'' \<notin> set (columns df) \<and> ''TL (mm)'' \<in> set (columns df)
        \<and> numeric_column df ''TL (mm)'' \<longrightarrow>
       (\<exists>df'. impute_fork_length df = Inr df'
          \<and> length (rows df') = length (rows df)
          \<and> (\<forall>i<length (rows df). \<forall>t.
                (rows df ! i) ''TL (mm)'' = Some (Num (Fin t)) \<longrightarrow>
                (rows df' ! i) ''FL (mm)'' = Some (Num (Fin ((t - 3.472) / 1.2533))))))"
proof (intro conjI impI)
  assume "''FL (mm)'' \<in> set (columns df)"
  then show "impute_fork_length df = Inr df"
    by (rule impute_present)
next
  assume a: "''FL (mm)'' \<notin> set (columns df) \<and> ''TL (mm)'' \<in> set (columns df)
        \<and> numeric_column df ''TL (mm)''"
  then obtain vs where vs: "impute_fork_length df = Inr (setitem df ''FL (mm)'' vs)"
      "length vs = length (rows df)"
      "\<And>i t. i < length (rows df) \<Longrightarrow> (rows df ! i) ''TL (mm)'' = Some (Num t) \<Longrightarrow>
                 vs ! i = Num (fdiv (fsub t (Fin 3.472)) (Fin 1.2533))"
    using impute_absent' [of df] by blast
  have "length (rows (setitem df ''FL (mm)'' vs)) = length (rows df)"
    using vs(2) by (simp add: setitem_def)
  moreover have "(rows (setitem df ''FL (mm)'' vs) ! i) ''FL (mm)''
        = Some (Num (Fin ((t - 3.472) / 1.2533)))"
    if "i < length (rows df)" "(rows df ! i) ''TL (mm)'' = Some (Num (Fin t))" for i t
    using vs(3) [OF that] setitem_row [OF vs(2) that(1)] by simp
  ultimately show "\<exists>df'. impute_fork_length df = Inr df'
          \<and> length (rows df') = length (rows df)
          \<and> (\<forall>i<length (rows df). \<forall>t.
                (rows df ! i) ''TL (mm)'' = Some (Num (Fin t)) \<longrightarrow>
                (rows df' ! i) ''FL (mm)'' = Some (Num (Fin ((t - 3.472) / 1.2533))))"
    using vs(1) by blast
qed

theorem impute_by_column_witness:
  "impute_fork_length
     \<lparr>columns = [''Sex'', ''TL (mm)'', ''FL (mm)''],
      rows = [[''Sex'' \<mapsto> Str ''Male'', ''TL (mm)'' \<mapsto> Num (Fin 250), ''FL (mm)'' \<mapsto> Num (Fin 190)]]\<rparr>
   = Inr \<lparr>columns = [''Sex'', ''TL (mm)'', ''FL (mm)''],
      rows = [[''Sex'' \<mapsto> Str ''Male'', ''TL (mm)'' \<mapsto> Num (Fin 250), ''FL (mm)'' \<mapsto> Num (Fin 190)]]\<rparr>
   \<and> (\<exists>df'. impute_fork_length
         \<lparr>columns = [''Sex'', ''TL (mm)''],
          rows = [[''Sex'' \<mapsto> Str ''Male'', ''TL (mm)'' \<mapsto> Num (Fin 250)]]\<rparr> = Inr df'
        \<and> (rows df' ! 0) ''FL (mm)'' = Some (Num (Fin ((250 - 3.472) / 1.2533))))"
  using impute_by_column [of "\<lparr>columns = [''Sex'', ''TL (mm)'', ''FL (mm)''],
      rows = [[''Sex'' \<mapsto> Str ''Male'', ''TL (mm)'' \<mapsto> Num (Fin 250), ''FL (mm)'' \<mapsto> Num (Fin 190)]]\<rparr>"]
    impute_by_column [of "\<lparr>columns = [''Sex'', ''TL (mm)''],
          rows = [[''Sex'' \<mapsto> Str ''Male'', ''TL (mm)'' \<mapsto> Num (Fin 250)]]\<rparr>"]
  by (simp add: numeric_column_def) blast

text \<open>
  C3, as stated, fails: in a table that has the column \<open>'FL (mm)'\<close>, a row with a
  total length of 300 and a missing fork length keeps the missing fork length.
\<close>

theorem impute_by_row_counterexample:
  "impute_fork_length
     \<lparr>columns = [''Sex'', ''TL (mm)'', ''FL (mm)''],
      rows = [[''Sex'' \<mapsto> Str ''Female'', ''TL (mm)'' \<mapsto> Num (Fin 300), ''FL (mm)'' \<mapsto> Num NaN]]\<rparr>
   = Inr \<lparr>columns = [''Sex'', ''TL (mm)'', ''FL (mm)''],
      rows = [[''Sex'' \<mapsto> Str ''Female'', ''TL (mm)'' \<mapsto> Num (Fin 300), ''FL (mm)'' \<mapsto> Num NaN]]\<rparr>
   \<and> [''Sex'' \<mapsto> Str ''Female'', ''TL (mm)'' \<mapsto> Num (Fin 300), ''FL (mm)'' \<mapsto> Num NaN] ''FL (mm)''
       \<noteq> Some (Num (Fin ((300 - 3.472) / 1.2533)))"
  by (simp add: impute_fork_length_def)

section \<open>The notebook on a table with total lengths only\<close>

text \<open>
  The two calibration cells raise nothing on their literal inputs, and a table that has
  both the label the imputation reads, \<open>'TL (mm)'\<close>, and the label
  \<open>calculate_age\<close> reads, \<open>'FL (cm)'\<close>, runs to the end.
\<close>

lemma estimation_ok:
  "\<exists>e1 e2. Vertebral_vb_estimation = Inr [([], e1), ([], e2)]"
  unfolding Vertebral_vb_estimation_def Vertebral_aged_FL_def
  by (simp only: apply_each.simps female_fin) simp

lemma regression_ok:
  "\<exists>slope intercept. fit_regression Vertebral_vb_array = Inr (slope, intercept)"
  by (simp add: fit_regression_def Vertebral_vb_array_def LinearRegression_fit_def Let_def)

lemma notebook_completes_with_fork_length_cm:
  "\<exists>age. run_notebook
     \<lparr>columns = [''Sex'', ''TL (mm)'', ''FL (cm)''],
      rows = [[''Sex'' \<mapsto> Str ''Female'', ''TL (mm)'' \<mapsto> Num (Fin 300),
               ''FL (cm)'' \<mapsto> Num (Fin 243)]]\<rparr>
   = Inr ([],
      \<lparr>columns = [''Sex'', ''TL (mm)'', ''FL (cm)'', ''FL (mm)'', ''Modified VB Age'',
                  ''Age Corrected Proxy''],
       rows = [[''Sex'' \<mapsto> Str ''Female'', ''TL (mm)'' \<mapsto> Num (Fin 300),
                ''FL (cm)'' \<mapsto> Num (Fin 243),
                ''FL (mm)'' \<mapsto> Num (Fin ((300 - 3.472) / 1.2533)),
                ''Modified VB Age'' \<mapsto> Num (Fin age),
                ''Age Corrected Proxy'' \<mapsto>
                   Num (Fin (age * 0.5910115884370238 - 16.971951358327846))]]\<rparr>)"
proof -
  obtain e1 e2 where est: "Vertebral_vb_estimation = Inr [([], e1), ([], e2)]"
    using estimation_ok by blast
  obtain slope intercept where reg: "fit_regression Vertebral_vb_array = Inr (slope, intercept)"
    using regression_ok by blast
  have pos: "0 < vb_closed_form 323.9 50 0.11 243"
    by (rule closed_form_pos) simp_all
  have age: "calculate_female_age (Num (Fin 243))
               = Inr ([], Fin (vb_closed_form 323.9 50 0.11 243))"
    using pos by (simp only: female_fin) simp
  have "run_notebook
     \<lparr>columns = [''Sex'', ''TL (mm)'', ''FL (cm)''],
      rows = [[''Sex'' \<mapsto> Str ''Female'', ''TL (mm)'' \<mapsto> Num (Fin 300),
               ''FL (cm)'' \<mapsto> Num (Fin 243)]]\<rparr>
   = Inr ([],
      \<lparr>columns = [''Sex'', ''TL (mm)'', ''FL (cm)'', ''FL (mm)'', ''Modified VB Age'',
                  ''Age Corrected Proxy''],
       rows = [[''Sex'' \<mapsto> Str ''Female'', ''TL (mm)'' \<mapsto> Num (Fin 300),
                ''FL (cm)'' \<mapsto> Num (Fin 243),
                ''FL (mm)'' \<mapsto> Num (Fin ((300 - 3.472) / 1.2533)),
                ''Modified VB Age'' \<mapsto> Num (Fin (vb_closed_form 323.9 50 0.11 243)),
                ''Age Corrected Proxy'' \<mapsto>
                   Num (Fin (vb_closed_form 323.9 50 0.11 243 * 0.5910115884370238
                             - 16.971951358327846))]]\<rparr>)"
    by (simp add: run_notebook_def impute_fork_length_def getitem_def fork_length_of_total_def
        setitem_def calculate_age_def est reg age del: calculate_female_age.simps)
  then show ?thesis
    by blast
qed

text \<open>
  C4. A table with the columns \<open>Sex\<close> and \<open>'TL (mm)'\<close> and one female specimen: the
  imputation writes \<open>'FL (mm)'\<close>, \<open>calculate_age\<close> reads \<open>'FL (cm)'\<close>, and the run
  ends with \<open>KeyError\<close>. With the total length under the label \<open>'TL (cm)'\<close> the
  imputation itself raises \<open>KeyError\<close>.
\<close>

theorem notebook_total_length_only:
  "run_notebook
     \<lparr>columns = [''Sex'', ''TL (mm)''],
      rows = [[''Sex'' \<mapsto> Str ''Female'', ''TL (mm)'' \<mapsto> Num (Fin 300)]]\<rparr>
   = Inl (KeyError ''FL (cm)'')
   \<and> run_notebook
     \<lparr>columns = [''Sex'', ''TL (cm)''],
      rows = [[''Sex'' \<mapsto> Str ''Female'', ''TL (cm)'' \<mapsto> Num (Fin 300)]]\<rparr>
   = Inl (KeyError ''TL (mm)'')"
  by (simp add: run_notebook_def impute_fork_length_def getitem_def fork_length_of_total_def
      setitem_def calculate_age_def)

section \<open>Properties of the Correction Calibrator\<close>










section \<open>The end-to-end scenarios\<close>

lemma exp_below_292: "exp (6.229851815::real) < 161950 / 319"
proof -
  have "exp (0.3893657384375::real) \<le> (\<Sum>m<10. 0.3893657384375 ^ m / fact m) + 3 * 0.3893657384375 ^ 10 / fact 10"
    by (rule exp_taylor_upper) simp_all
  also have "\<dots> \<le> 1.476044298803"
    unfolding taylor10 by (simp add: fact_numeral power_divide)
  finally have b0: "exp (0.3893657384375::real) \<le> 1.476044298803" .
  have b1: "exp (2 * 0.3893657384375::real) \<le> 2.178706772029"
    by (rule exp_square_upper [OF b0]) (simp add: power2_eq_square)
  have b2: "exp (2 * (2 * 0.3893657384375)::real) \<le> 4.746763198486"
    by (rule exp_square_upper [OF b1]) (simp add: power2_eq_square)
  have b3: "exp (2 * (2 * (2 * 0.3893657384375))::real) \<le> 22.531760862502"
    by (rule exp_square_upper [OF b2]) (simp add: power2_eq_square)
  have b4: "exp (2 * (2 * (2 * (2 * 0.3893657384375)))::real) \<le> 507.680247564977"
    by (rule exp_square_upper [OF b3]) (simp add: power2_eq_square)
  have "(2 * (2 * (2 * (2 * 0.3893657384375)))::real) = 6.229851815"
    by simp
  with b4 have "exp (6.229851815::real) \<le> 507.680247564977"
    by simp
  also have "(507.680247564977::real) < 161950 / 319"
    by simp
  finally show ?thesis .
qed

lemma exp_above_292: "(161950 / 319::real) < exp 6.229851925"
proof -
  have "(1.476044308884::real) \<le> (\<Sum>m<10. 0.3893657453125 ^ m / fact m)"
    unfolding taylor10 by (simp add: power_divide)
  also have "\<dots> \<le> exp 0.3893657453125"
    by (rule exp_taylor_lower) simp
  finally have b0: "(1.476044308884::real) \<le> exp 0.3893657453125" .
  have b1: "(2.178706801788::real) \<le> exp (2 * 0.3893657453125)"
    by (rule exp_square_lower [OF b0]) (simp_all add: power2_eq_square)
  have b2: "(4.746763328157::real) \<le> exp (2 * (2 * 0.3893657453125))"
    by (rule exp_square_lower [OF b1]) (simp_all add: power2_eq_square)
  have b3: "(22.531762093536::real) \<le> exp (2 * (2 * (2 * 0.3893657453125)))"
    by (rule exp_square_lower [OF b2]) (simp_all add: power2_eq_square)
  have b4: "(507.680303039705::real) \<le> exp (2 * (2 * (2 * (2 * 0.3893657453125))))"
    by (rule exp_square_lower [OF b3]) (simp_all add: power2_eq_square)
  have "(2 * (2 * (2 * (2 * 0.3893657453125)))::real) = 6.229851925"
    by simp
  with b4 have "(507.680303039705::real) \<le> exp 6.229851925"
    by simp
  moreover have "(161950 / 319::real) < 507.680303039705"
    by simp
  ultimately show ?thesis
    by linarith
qed

lemma exp_below_243: "exp (5.299244005::real) < 161950 / 809"
proof -
  have "exp (0.3312027503125::real) \<le> (\<Sum>m<10. 0.3312027503125 ^ m / fact m) + 3 * 0.3312027503125 ^ 10 / fact 10"
    by (rule exp_taylor_upper) simp_all
  also have "\<dots> \<le> 1.392642122321"
    unfolding taylor10 by (simp add: fact_numeral power_divide)
  finally have b0: "exp (0.3312027503125::real) \<le> 1.392642122321" .
  have b1: "exp (2 * 0.3312027503125::real) \<le> 1.939452080863"
    by (rule exp_square_upper [OF b0]) (simp add: power2_eq_square)
  have b2: "exp (2 * (2 * 0.3312027503125)::real) \<le> 3.761474373964"
    by (rule exp_square_upper [OF b1]) (simp add: power2_eq_square)
  have b3: "exp (2 * (2 * (2 * 0.3312027503125))::real) \<le> 14.148689465988"
    by (rule exp_square_upper [OF b2]) (simp add: power2_eq_square)
  have b4: "exp (2 * (2 * (2 * (2 * 0.3312027503125)))::real) \<le> 200.18541360496"
    by (rule exp_square_upper [OF b3]) (simp add: power2_eq_square)
  have "(2 * (2 * (2 * (2 * 0.3312027503125)))::real) = 5.299244005"
    by simp
  with b4 have "exp (5.299244005::real) \<le> 200.18541360496"
    by simp
  also have "(200.18541360496::real) < 161950 / 809"
    by simp
  finally show ?thesis .
qed

lemma exp_above_243: "(161950 / 809::real) < exp 5.299244115"
proof -
  have "(1.392642131881::real) \<le> (\<Sum>m<10. 0.3312027571875 ^ m / fact m)"
    unfolding taylor10 by (simp add: power_divide)
  also have "\<dots> \<le> exp 0.3312027571875"
    by (rule exp_taylor_lower) simp
  finally have b0: "(1.392642131881::real) \<le> exp 0.3312027571875" .
  have b1: "(1.93945210749::real) \<le> exp (2 * 0.3312027571875)"
    by (rule exp_square_lower [OF b0]) (simp_all add: power2_eq_square)
  have b2: "(3.761474477247::real) \<le> exp (2 * (2 * 0.3312027571875))"
    by (rule exp_square_lower [OF b1]) (simp_all add: power2_eq_square)
  have b3: "(14.14869024298::real) \<le> exp (2 * (2 * (2 * 0.3312027571875)))"
    by (rule exp_square_lower [OF b2]) (simp_all add: power2_eq_square)
  have b4: "(200.185435591797::real) \<le> exp (2 * (2 * (2 * (2 * 0.3312027571875))))"
    by (rule exp_square_lower [OF b3]) (simp_all add: power2_eq_square)
  have "(2 * (2 * (2 * (2 * 0.3312027571875)))::real) = 5.299244115"
    by simp
  with b4 have "(200.185435591797::real) \<le> exp 5.299244115"
    by simp
  moreover have "(161950 / 809::real) < 200.185435591797"
    by simp
  ultimately show ?thesis
    by linarith
qed

lemma female_age_292:
  "56.6350165 < vb_closed_form 323.9 50 0.11 292 \<and> vb_closed_form 323.9 50 0.11 292 < 56.6350175"
proof -
  have "vb_closed_form 323.9 50 0.11 292 = ln (50 * 323.9 / (323.9 - 292)) / 0.11"
    by (rule closed_form_as_ln) simp_all
  also have "(50 * 323.9 / (323.9 - 292) :: real) = 161950 / 319"
    by simp
  finally have v: "vb_closed_form 323.9 50 0.11 292 = ln (161950 / 319) / 0.11" .
  show ?thesis
    unfolding v
    by (rule scaled_ln_between) (use exp_below_292 exp_above_292 in simp_all)
qed

lemma female_age_243:
  "48.1749455 < vb_closed_form 323.9 50 0.11 243 \<and> vb_closed_form 323.9 50 0.11 243 < 48.1749465"
proof -
  have "vb_closed_form 323.9 50 0.11 243 = ln (50 * 323.9 / (323.9 - 243)) / 0.11"
    by (rule closed_form_as_ln) simp_all
  also have "(50 * 323.9 / (323.9 - 243) :: real) = 161950 / 809"
    by simp
  finally have v: "vb_closed_form 323.9 50 0.11 243 = ln (161950 / 809) / 0.11" .
  show ?thesis
    unfolding v
    by (rule scaled_ln_between) (use exp_below_243 exp_above_243 in simp_all)
qed

text \<open>
  C8. The female age function maps the fork length 292 to an age that differs from
  56.635017 by less than 0.0000005, and the fork length 243 to an age that differs from
  48.174946 by less than 0.0000005: the values agree to the six decimals given. The
  correction maps the VB age 56.635017 to a value that differs from 16.5 by less than
  0.000000001.
\<close>

theorem scenario_values:
  "\<exists>a1 a2 c.
     calculate_female_age (Num (Fin 292)) = Inr ([], Fin a1) \<and> \<bar>a1 - 56.635017\<bar> < 5 / 10 ^ 7
     \<and> calculate_female_age (Num (Fin 243)) = Inr ([], Fin a2) \<and> \<bar>a2 - 48.174946\<bar> < 5 / 10 ^ 7
     \<and> correction_coefficient (Num (Fin 56.635017)) = Inr (Fin c) \<and> \<bar>c - 16.5\<bar> < 1 / 10 ^ 9"
proof -
  have p1: "0 < vb_closed_form 323.9 50 0.11 292"
    using female_age_292 by linarith
  have p2: "0 < vb_closed_form 323.9 50 0.11 243"
    using female_age_243 by linarith
  have 1: "calculate_female_age (Num (Fin 292)) = Inr ([], Fin (vb_closed_form 323.9 50 0.11 292))"
    using p1 by (simp only: female_fin) simp
  have 2: "calculate_female_age (Num (Fin 243)) = Inr ([], Fin (vb_closed_form 323.9 50 0.11 243))"
    using p2 by (simp only: female_fin) simp
  have 3: "correction_coefficient (Num (Fin 56.635017))
             = Inr (Fin (56.635017 * 0.5910115884370238 - 16.971951358327846))"
    by simp
  have 4: "\<bar>56.635017 * 0.5910115884370238 - 16.971951358327846 - 16.5\<bar> < (1 / 10 ^ 9 :: real)"
    by simp
  have 5: "\<bar>vb_closed_form 323.9 50 0.11 292 - 56.635017\<bar> < 5 / 10 ^ 7"
    by (rule abs_diff_less) (use female_age_292 in simp)
  have 6: "\<bar>vb_closed_form 323.9 50 0.11 243 - 48.174946\<bar> < 5 / 10 ^ 7"
    by (rule abs_diff_less) (use female_age_243 in simp)
  show ?thesis
    using 1 2 3 4 5 6 by blast
qed

end
